theory Spec2Isabelle
  imports Main "HOL-Library.Log_Nat"
begin

section \<open>Python floats\<close>

text \<open>
  A Python \<^verbatim>\<open>float\<close> is an IEEE 754 binary64 number. A finite one is modelled by the
  rational number it denotes, and every arithmetic operation by the exact rational
  operation followed by \<open>fl\<close>, rounding to the nearest binary64 value, ties to even
  (53 significant bits, gradual underflow below \<open>2 powi (- 1022)\<close>). Comparisons,
  \<^verbatim>\<open>abs\<close>, \<^verbatim>\<open>min\<close> and \<^verbatim>\<open>max\<close> are exact on floats and need no rounding.
  Infinities, NaN and overflow beyond the binary64 range are outside the model.
\<close>

type_synonym pyfloat = rat

definition rne :: "rat \<Rightarrow> int" where
  "rne q = (let n = \<lfloor>q\<rfloor>; r = q - of_int n
            in if r < 1 / 2 then n else if 1 / 2 < r then n + 1
               else if even n then n else n + 1)"

definition bexp :: "rat \<Rightarrow> int" where
  "bexp q = (if 1 \<le> q then bitlen \<lfloor>q\<rfloor> - 1 else - bitlen (\<lceil>1 / q\<rceil> - 1))"

definition ulp :: "rat \<Rightarrow> rat" where
  "ulp q = 2 powi (max (bexp \<bar>q\<bar>) (- 1022) - 52)"

definition fl :: "rat \<Rightarrow> pyfloat" where
  "fl q = (if q = 0 then 0 else of_int (rne (q / ulp q)) * ulp q)"

definition fadd :: "pyfloat \<Rightarrow> pyfloat \<Rightarrow> pyfloat" where
  "fadd a b = fl (a + b)"

definition fsub :: "pyfloat \<Rightarrow> pyfloat \<Rightarrow> pyfloat" where
  "fsub a b = fl (a - b)"

definition fmul :: "pyfloat \<Rightarrow> pyfloat \<Rightarrow> pyfloat" where
  "fmul a b = fl (a * b)"

definition fdiv :: "pyfloat \<Rightarrow> pyfloat \<Rightarrow> pyfloat" where
  "fdiv a b = fl (a / b)"

text \<open>\<^verbatim>\<open>a / b\<close> on two Python ints is the correctly rounded quotient.\<close>

definition int_truediv :: "int \<Rightarrow> int \<Rightarrow> pyfloat" where
  "int_truediv a b = fl (of_int a / of_int b)"

definition float_of_int :: "int \<Rightarrow> pyfloat" where
  "float_of_int n = fl (of_int n)"

text \<open>\<^verbatim>\<open>int(x)\<close> on a float truncates towards zero.\<close>

definition py_int :: "pyfloat \<Rightarrow> int" where
  "py_int x = (if 0 \<le> x then \<lfloor>x\<rfloor> else \<lceil>x\<rceil>)"

text \<open>
  \<^verbatim>\<open>round(x, nd)\<close> on a float: the exact value is rounded to \<open>nd\<close> decimal places, ties
  to even, and the nearest float to that decimal is returned.
\<close>

definition py_round :: "pyfloat \<Rightarrow> nat \<Rightarrow> pyfloat" where
  "py_round x nd = fl (of_int (rne (x * 10 ^ nd)) / 10 ^ nd)"

section \<open>Predictions\<close>

text \<open>
  An actionable signal as \<^verbatim>\<open>create_prediction_tx\<close> reads it: \<^verbatim>\<open>symbol\<close> and \<^verbatim>\<open>price\<close>
  are indexed directly, the other keys are read with \<^verbatim>\<open>.get\<close> and may be absent.
\<close>

record trade_signal =
  sg_symbol :: string
  sg_signal :: "int option"
  sg_price :: pyfloat
  sg_take_profit_price :: "pyfloat option"
  sg_stop_loss_price :: "pyfloat option"

text \<open>
  A prediction is a JSON object of the ledger file. A field is \<open>None\<close> when its key is
  absent from the object.
\<close>

record prediction =
  asset :: "string option"
  direction :: "string option"
  entry_price :: "int option"
  take_profit :: "int option"
  stop_loss :: "int option"
  timeframe_hours :: "int option"
  created_at :: "string option"
  expires_at :: "pyfloat option"
  status :: "string option"
  original_signal :: "trade_signal option"
  local_id :: "nat option"
  result_price :: "int option"
  verified_at :: "string option"

text \<open>The exceptions that the code raises on the values of a ledger file.\<close>

datatype py_error = KeyError | TypeError | OverflowError

subsection \<open>verifier.py\<close>

definition get_int :: "int option \<Rightarrow> int \<Rightarrow> int" where
  "get_int v d = (case v of None \<Rightarrow> d | Some x \<Rightarrow> x)"

definition get_str :: "string option \<Rightarrow> string \<Rightarrow> string" where
  "get_str v d = (case v of None \<Rightarrow> d | Some x \<Rightarrow> x)"

definition get_float :: "pyfloat option \<Rightarrow> pyfloat \<Rightarrow> pyfloat" where
  "get_float v d = (case v of None \<Rightarrow> d | Some x \<Rightarrow> x)"

definition verify_prediction :: "prediction \<Rightarrow> pyfloat \<Rightarrow> string" where
  "verify_prediction prediction current_price =
     (let dir = get_str (direction prediction) ''LONG'';
          entry = int_truediv (get_int (entry_price prediction) 0) 1000000;
          tp = int_truediv (get_int (take_profit prediction) 0) 1000000;
          sl = int_truediv (get_int (stop_loss prediction) 0) 1000000
      in if dir = ''LONG'' then
           (if current_price \<ge> tp then ''won''
            else if current_price \<le> sl then ''lost''
            else if current_price > entry then ''won''
            else ''lost'')
         else
           (if current_price \<le> tp then ''won''
            else if current_price \<ge> sl then ''lost''
            else if current_price < entry then ''won''
            else ''lost''))"

text \<open>
  The definition above reads a prediction whose keys hold what \<^verbatim>\<open>create_prediction_tx\<close>
  writes: a string for the direction and integers for the three prices. The ledger is a
  JSON file, and \<^verbatim>\<open>json.load\<close> returns under a key whatever value the file holds. A float
  of the file may be \<^verbatim>\<open>NaN\<close>, \<^verbatim>\<open>Infinity\<close> or \<^verbatim>\<open>-Infinity\<close>; of an array or an object
  only the kind matters here.
\<close>

datatype float_value = Finite pyfloat | PosInf | NegInf | NaN

datatype json_value = JNull | JBool bool | JInt int | JFloat float_value | JStr string | JArray | JObject

record json_prediction =
  jp_direction :: "json_value option"
  jp_entry_price :: "json_value option"
  jp_take_profit :: "json_value option"
  jp_stop_loss :: "json_value option"

definition get_json :: "json_value option \<Rightarrow> json_value \<Rightarrow> json_value" where
  "get_json v d = (case v of None \<Rightarrow> d | Some x \<Rightarrow> x)"

text \<open>
  The expression \<^verbatim>\<open>v / 1_000_000\<close>. The true division of two integers raises
  \<^verbatim>\<open>OverflowError\<close> when the rounded quotient is beyond the largest float, that is when
  rounding with an unbounded exponent reaches \<open>2 ^ 1024\<close>; \<^verbatim>\<open>True\<close> and \<^verbatim>\<open>False\<close> are the
  integers 1 and 0; a float is divided as a float; \<^verbatim>\<open>None\<close>, a string, a list and a dict
  raise \<^verbatim>\<open>TypeError\<close>.
\<close>

fun truediv_million :: "json_value \<Rightarrow> py_error + float_value" where
  "truediv_million (JInt n) =
     (let r = int_truediv n 1000000
      in if 2 ^ 1024 \<le> \<bar>r\<bar> then Inl OverflowError else Inr (Finite r))"
| "truediv_million (JBool b) = Inr (Finite (int_truediv (if b then 1 else 0) 1000000))"
| "truediv_million (JFloat (Finite x)) = Inr (Finite (fdiv x 1000000))"
| "truediv_million (JFloat PosInf) = Inr PosInf"
| "truediv_million (JFloat NegInf) = Inr NegInf"
| "truediv_million (JFloat NaN) = Inr NaN"
| "truediv_million JNull = Inl TypeError"
| "truediv_million (JStr s) = Inl TypeError"
| "truediv_million JArray = Inl TypeError"
| "truediv_million JObject = Inl TypeError"

text \<open>
  The comparisons of a finite price with a float: every comparison with \<^verbatim>\<open>NaN\<close> is
  false.
\<close>

fun price_ge :: "pyfloat \<Rightarrow> float_value \<Rightarrow> bool" where
  "price_ge c (Finite x) = (c \<ge> x)"
| "price_ge c PosInf = False"
| "price_ge c NegInf = True"
| "price_ge c NaN = False"

fun price_le :: "pyfloat \<Rightarrow> float_value \<Rightarrow> bool" where
  "price_le c (Finite x) = (c \<le> x)"
| "price_le c PosInf = True"
| "price_le c NegInf = False"
| "price_le c NaN = False"

fun price_gt :: "pyfloat \<Rightarrow> float_value \<Rightarrow> bool" where
  "price_gt c (Finite x) = (c > x)"
| "price_gt c PosInf = False"
| "price_gt c NegInf = True"
| "price_gt c NaN = False"

fun price_lt :: "pyfloat \<Rightarrow> float_value \<Rightarrow> bool" where
  "price_lt c (Finite x) = (c < x)"
| "price_lt c PosInf = True"
| "price_lt c NegInf = False"
| "price_lt c NaN = False"

text \<open>
  \<^verbatim>\<open>verify_prediction\<close> on such a prediction. The three divisions are evaluated in the
  order of the source, and the first that raises ends the call. \<^verbatim>\<open>direction == "LONG"\<close>
  holds of the string \<^verbatim>\<open>LONG\<close> only.
\<close>

definition verify_prediction_json :: "json_prediction \<Rightarrow> pyfloat \<Rightarrow> py_error + string" where
  "verify_prediction_json prediction current_price =
     (let dir = get_json (jp_direction prediction) (JStr ''LONG'')
      in case truediv_million (get_json (jp_entry_price prediction) (JInt 0)) of
           Inl e \<Rightarrow> Inl e
         | Inr entry \<Rightarrow>
       (case truediv_million (get_json (jp_take_profit prediction) (JInt 0)) of
           Inl e \<Rightarrow> Inl e
         | Inr tp \<Rightarrow>
       (case truediv_million (get_json (jp_stop_loss prediction) (JInt 0)) of
           Inl e \<Rightarrow> Inl e
         | Inr sl \<Rightarrow>
             Inr (if dir = JStr ''LONG'' then
                    (if price_ge current_price tp then ''won''
                     else if price_le current_price sl then ''lost''
                     else if price_gt current_price entry then ''won''
                     else ''lost'')
                  else
                    (if price_le current_price tp then ''won''
                     else if price_ge current_price sl then ''lost''
                     else if price_lt current_price entry then ''won''
                     else ''lost'')))))"

text \<open>The JSON object of a prediction of the first kind, as far as the verifier reads it.\<close>

definition json_of :: "prediction \<Rightarrow> json_prediction" where
  "json_of p =
     \<lparr>jp_direction = map_option JStr (direction p),
      jp_entry_price = map_option JInt (entry_price p),
      jp_take_profit = map_option JInt (take_profit p),
      jp_stop_loss = map_option JInt (stop_loss p)\<rparr>"

text \<open>
  The values under a price key on which the division does not raise: a number, and if an
  integer one whose quotient by 1,000,000 is in the range of the floats.
\<close>

fun divisible :: "json_value \<Rightarrow> bool" where
  "divisible (JInt n) = (\<bar>int_truediv n 1000000\<bar> < 2 ^ 1024)"
| "divisible (JBool b) = True"
| "divisible (JFloat x) = True"
| "divisible JNull = False"
| "divisible (JStr s) = False"
| "divisible JArray = False"
| "divisible JObject = False"

definition prices_divisible :: "json_prediction \<Rightarrow> bool" where
  "prices_divisible p =
     (divisible (get_json (jp_entry_price p) (JInt 0))
      \<and> divisible (get_json (jp_take_profit p) (JInt 0))
      \<and> divisible (get_json (jp_stop_loss p) (JInt 0)))"

text \<open>
  \<^verbatim>\<open>process_expired_predictions\<close>. The clock \<^verbatim>\<open>time.time()\<close> is read once, before the
  loop: \<open>current_time\<close>. The price lookup and \<^verbatim>\<open>datetime.utcnow()\<close> are calls to the
  outside inside the loop; they are given as functions of the position of the prediction
  in the ledger, so that two lookups of one asset may answer differently. The result is
  the ledger that is saved and the count that is returned.
\<close>

fun process_expired_loop ::
  "pyfloat \<Rightarrow> (nat \<Rightarrow> string \<Rightarrow> pyfloat option) \<Rightarrow> (nat \<Rightarrow> string) \<Rightarrow> nat
     \<Rightarrow> prediction list \<Rightarrow> prediction list \<times> nat" where
  "process_expired_loop current_time get_pyth_price utcnow i [] = ([], 0)"
| "process_expired_loop current_time get_pyth_price utcnow i (pred # rest) =
     (let (rest', verified_count) =
            process_expired_loop current_time get_pyth_price utcnow (Suc i) rest
      in if status pred \<noteq> Some ''active'' then (pred # rest', verified_count)
         else if current_time < get_float (expires_at pred) 0 then (pred # rest', verified_count)
         else (case get_pyth_price i (get_str (asset pred) []) of
                 None \<Rightarrow>
                   (pred\<lparr>status := Some ''needs_manual_verification''\<rparr> # rest', verified_count)
               | Some current_price \<Rightarrow>
                   (pred\<lparr>status := Some (verify_prediction pred current_price),
                         result_price := Some (py_int (fmul current_price 1000000)),
                         verified_at := Some (utcnow i)\<rparr> # rest',
                    Suc verified_count)))"

definition process_expired_predictions ::
  "pyfloat \<Rightarrow> (nat \<Rightarrow> string \<Rightarrow> pyfloat option) \<Rightarrow> (nat \<Rightarrow> string)
     \<Rightarrow> prediction list \<Rightarrow> prediction list \<times> nat" where
  "process_expired_predictions current_time get_pyth_price utcnow predictions =
     process_expired_loop current_time get_pyth_price utcnow 0 predictions"

text \<open>What one pass through the body of that loop does to the prediction at position \<open>i\<close>.\<close>

definition process_one ::
  "pyfloat \<Rightarrow> (nat \<Rightarrow> string \<Rightarrow> pyfloat option) \<Rightarrow> (nat \<Rightarrow> string) \<Rightarrow> nat \<Rightarrow> prediction \<Rightarrow> prediction" where
  "process_one current_time get_pyth_price utcnow i pred =
     (if status pred \<noteq> Some ''active'' then pred
      else if current_time < get_float (expires_at pred) 0 then pred
      else (case get_pyth_price i (get_str (asset pred) []) of
              None \<Rightarrow> pred\<lparr>status := Some ''needs_manual_verification''\<rparr>
            | Some current_price \<Rightarrow>
                pred\<lparr>status := Some (verify_prediction pred current_price),
                      result_price := Some (py_int (fmul current_price 1000000)),
                      verified_at := Some (utcnow i)\<rparr>))"

subsection \<open>oracle.py\<close>

definition PRICE_DECIMALS :: nat where
  "PRICE_DECIMALS = 6"

definition PRICE_MULTIPLIER :: int where
  "PRICE_MULTIPLIER = 10 ^ PRICE_DECIMALS"

definition price_to_u64 :: "pyfloat \<Rightarrow> int" where
  "price_to_u64 price = py_int (fmul price (float_of_int PRICE_MULTIPLIER))"

text \<open>
  \<^verbatim>\<open>datetime.utcnow()\<close> returns a naive datetime: the wall clock of UTC with no time zone
  attached. It is given here by the whole seconds that this wall clock counts since
  1970-01-01 00:00:00 and by its microsecond field; at an instant of \<open>t\<close> whole seconds
  since the epoch, which is what \<^verbatim>\<open>time.time()\<close> counts, \<open>dt_seconds\<close> is \<open>t\<close>.
\<close>

record naive_datetime =
  dt_seconds :: int
  dt_microsecond :: int

text \<open>
  \<^verbatim>\<open>timestamp()\<close> of a naive datetime takes its wall clock for the local time of the
  host: where local time is \<open>utcoffset\<close> seconds east of UTC, the seconds since the epoch
  are the seconds of the wall clock less \<open>utcoffset\<close>, and the microseconds are added as
  \<^verbatim>\<open>microsecond / 1e6\<close>.
\<close>

definition timestamp :: "int \<Rightarrow> naive_datetime \<Rightarrow> pyfloat" where
  "timestamp utcoffset dt =
     fadd (float_of_int (dt_seconds dt - utcoffset)) (fdiv (float_of_int (dt_microsecond dt)) 1000000)"

text \<open>
  \<^verbatim>\<open>create_prediction_tx\<close>. What it reads from outside is given: \<open>isoformat\<close>, the text of
  a datetime; \<open>utcoffset\<close>, the offset of the local time of the host; the two reads of
  \<^verbatim>\<open>datetime.utcnow()\<close>, \<open>utcnow1\<close> for \<^verbatim>\<open>created_at\<close> and \<open>utcnow2\<close> for
  \<^verbatim>\<open>expires_at\<close>; and \<open>ledger\<close>, the ledger file as loaded. The result is the ledger
  that is saved and the \<^verbatim>\<open>local_id\<close> that the returned mock signature carries.
\<close>

definition create_prediction_tx ::
  "(naive_datetime \<Rightarrow> string) \<Rightarrow> int \<Rightarrow> naive_datetime \<Rightarrow> naive_datetime
     \<Rightarrow> prediction list \<Rightarrow> trade_signal \<Rightarrow> int \<Rightarrow> prediction list \<times> nat" where
  "create_prediction_tx isoformat utcoffset utcnow1 utcnow2 ledger signal hours =
     (let prediction =
            \<lparr>asset = Some (sg_symbol signal),
             direction = Some (if sg_signal signal = Some 1 then ''LONG'' else ''SHORT''),
             entry_price = Some (price_to_u64 (sg_price signal)),
             take_profit = Some (price_to_u64
               (get_float (sg_take_profit_price signal) (fmul (sg_price signal) (fl (105 / 100))))),
             stop_loss = Some (price_to_u64
               (get_float (sg_stop_loss_price signal) (fmul (sg_price signal) (fl (95 / 100))))),
             timeframe_hours = Some hours,
             created_at = Some (isoformat utcnow1),
             expires_at = Some (fadd (timestamp utcoffset utcnow2) (float_of_int (hours * 3600))),
             status = Some ''active'',
             original_signal = Some signal,
             local_id = None,
             result_price = None,
             verified_at = None\<rparr>;
          predictions = ledger;
          prediction = prediction\<lparr>local_id := Some (length predictions)\<rparr>
      in (predictions @ [prediction], length predictions))"

text \<open>
  \<^verbatim>\<open>verify_predictions\<close> indexes \<^verbatim>\<open>pred["status"]\<close>, \<^verbatim>\<open>pred["expires_at"]\<close> and
  \<^verbatim>\<open>pred['asset']\<close> directly: an absent key raises \<^verbatim>\<open>KeyError\<close>, the loop is left and
  the ledger is not saved.
\<close>

fun verify_predictions_loop :: "pyfloat \<Rightarrow> prediction list \<Rightarrow> py_error + prediction list" where
  "verify_predictions_loop current_time [] = Inr []"
| "verify_predictions_loop current_time (pred # rest) =
     (case status pred of
        None \<Rightarrow> Inl KeyError
      | Some s \<Rightarrow>
          if s \<noteq> ''active'' then
            (case verify_predictions_loop current_time rest of
               Inl e \<Rightarrow> Inl e | Inr rest' \<Rightarrow> Inr (pred # rest'))
          else
            (case expires_at pred of
               None \<Rightarrow> Inl KeyError
             | Some e \<Rightarrow>
                 if current_time \<ge> e then
                   (case asset pred of
                      None \<Rightarrow> Inl KeyError
                    | Some a \<Rightarrow>
                        (case verify_predictions_loop current_time rest of
                           Inl e \<Rightarrow> Inl e
                         | Inr rest' \<Rightarrow> Inr (pred\<lparr>status := Some ''needs_verification''\<rparr> # rest')))
                 else
                   (case verify_predictions_loop current_time rest of
                      Inl e \<Rightarrow> Inl e | Inr rest' \<Rightarrow> Inr (pred # rest'))))"

text \<open>The ledger file after \<^verbatim>\<open>verify_predictions\<close>: rewritten only when nothing was raised.\<close>

definition verify_predictions :: "pyfloat \<Rightarrow> prediction list \<Rightarrow> prediction list" where
  "verify_predictions current_time ledger =
     (case verify_predictions_loop current_time ledger of Inl e \<Rightarrow> ledger | Inr predictions \<Rightarrow> predictions)"

text \<open>
  A ledger scan is one run of either entry point, with what it reads from outside; a
  sequence of scans runs them one after the other on the ledger file.
\<close>

datatype scan =
  ExpiryScan pyfloat
| PriceScan pyfloat "nat \<Rightarrow> string \<Rightarrow> pyfloat option" "nat \<Rightarrow> string"

fun run_scan :: "scan \<Rightarrow> prediction list \<Rightarrow> prediction list" where
  "run_scan (ExpiryScan current_time) ledger = verify_predictions current_time ledger"
| "run_scan (PriceScan current_time get_pyth_price utcnow) ledger =
     fst (process_expired_predictions current_time get_pyth_price utcnow ledger)"

fun run_scans :: "scan list \<Rightarrow> prediction list \<Rightarrow> prediction list" where
  "run_scans [] ledger = ledger"
| "run_scans (s # ss) ledger = run_scans ss (run_scan s ledger)"

text \<open>
  The ledgers that \<^verbatim>\<open>create_prediction_tx\<close> builds from the empty file: the prediction
  at position \<open>i\<close> carries \<^verbatim>\<open>local_id\<close> \<open>i\<close>.
\<close>

definition ids_sequential :: "prediction list \<Rightarrow> bool" where
  "ids_sequential ledger = (map local_id ledger = map Some [0 ..< length ledger])"

section \<open>Smart-money signals: nansen\_oracle.py\<close>

text \<open>
  \<^verbatim>\<open>str.upper()\<close> on ASCII text. A raw record is a JSON object read with \<^verbatim>\<open>.get\<close>: a
  field is \<open>None\<close> when its key is absent or null, and \<^verbatim>\<open>float(x or 0)\<close> then reads it
  as zero.
\<close>

definition upper_char :: "char \<Rightarrow> char" where
  "upper_char c = (let n = (of_char c :: nat) in if 97 \<le> n \<and> n \<le> 122 then char_of (n - 32) else c)"

definition upper :: "string \<Rightarrow> string" where
  "upper s = map upper_char s"

record token_flow =
  token_symbol :: "string option"
  net_flow_24h_usd :: "pyfloat option"
  net_flow_1h_usd :: "pyfloat option"
  net_flow_7d_usd :: "pyfloat option"
  market_cap_usd :: "pyfloat option"
  trader_count :: "int option"

record trade =
  token_bought_symbol :: "string option"
  token_sold_symbol :: "string option"
  trade_value_usd :: "pyfloat option"

text \<open>
  The keys that only one kind of signal carries: \<^verbatim>\<open>net_flow_1h_usd\<close>,
  \<^verbatim>\<open>net_flow_7d_usd\<close>, \<^verbatim>\<open>market_cap_usd\<close>, \<^verbatim>\<open>flow_pct_mcap\<close>, \<^verbatim>\<open>trader_count\<close> for a
  netflow signal; \<^verbatim>\<open>buy_ratio\<close>, \<^verbatim>\<open>total_volume_usd\<close>, \<^verbatim>\<open>trade_count\<close> for a DEX signal.
\<close>

datatype signal_extra =
  NetflowExtra pyfloat pyfloat pyfloat pyfloat int
| DexExtra pyfloat pyfloat nat

record flow_signal =
  fs_symbol :: string
  fs_chain :: string
  fs_direction :: string
  fs_net_flow_usd :: pyfloat
  fs_confidence :: pyfloat
  fs_source :: string
  fs_timestamp :: string
  fs_extra :: signal_extra

record merged_signal =
  ms_symbol :: string
  ms_chain :: string
  ms_direction :: string
  ms_confidence :: pyfloat
  ms_sources :: "string list"
  ms_net_flow_usd :: pyfloat
  ms_timestamp :: string

subsection \<open>The Flow Normalizer\<close>

text \<open>
  The body of the inner loop of \<^verbatim>\<open>analyze_netflows\<close> for one record of one chain:
  \<open>None\<close> when the record is passed over, the appended signal otherwise. \<open>now\<close> is the
  text of the clock read for the timestamp.
\<close>

definition netflow_signal :: "string \<Rightarrow> string \<Rightarrow> token_flow \<Rightarrow> flow_signal option" where
  "netflow_signal now chain token_flow =
     (let symbol = get_str (token_symbol token_flow) [];
          net_flow_24h = get_float (net_flow_24h_usd token_flow) 0;
          net_flow_1h = get_float (net_flow_1h_usd token_flow) 0;
          net_flow_7d = get_float (net_flow_7d_usd token_flow) 0;
          mcap = get_float (market_cap_usd token_flow) 0;
          trader_count = get_int (trader_count token_flow) 0
      in if symbol = [] then None
         else
           let primary_flow = (if net_flow_24h = 0 then net_flow_1h else net_flow_24h)
           in if primary_flow = 0 then None
              else
                let flow_pct = (if mcap > 0 then fmul (fdiv \<bar>primary_flow\<bar> mcap) 100 else 0)
                in if \<bar>primary_flow\<bar> > 5000 \<or> flow_pct > fl (1 / 10) then
                     let direction = (if primary_flow > 0 then ''LONG'' else ''SHORT'');
                         conf = fl (3 / 10);
                         conf = (if \<bar>primary_flow\<bar> > 50000 then fadd conf (fl (2 / 10)) else conf);
                         conf = (if \<bar>primary_flow\<bar> > 200000 then fadd conf (fl (2 / 10)) else conf);
                         conf = (if trader_count \<ge> 3 then fadd conf (fl (1 / 10)) else conf);
                         conf = (if (net_flow_1h > 0) = (net_flow_24h > 0) \<and> net_flow_1h \<noteq> 0
                                 then fadd conf (fl (1 / 10)) else conf);
                         conf = (if (net_flow_7d > 0) = (net_flow_24h > 0) \<and> net_flow_7d \<noteq> 0
                                 then fadd conf (fl (1 / 10)) else conf);
                         conf = min conf 1
                     in Some \<lparr>fs_symbol = upper symbol,
                              fs_chain = chain,
                              fs_direction = direction,
                              fs_net_flow_usd = py_round primary_flow 2,
                              fs_confidence = py_round conf 2,
                              fs_source = ''nansen_smart_money_netflow'',
                              fs_timestamp = now,
                              fs_extra = NetflowExtra (py_round net_flow_1h 2) (py_round net_flow_7d 2)
                                           (py_round mcap 0) (py_round flow_pct 4) trader_count\<rparr>
                   else None)"

text \<open>
  \<^verbatim>\<open>list.sort(key=..., reverse=True)\<close> is stable: a stable ascending sort on the negated
  key.
\<close>

definition analyze_netflows :: "string \<Rightarrow> (string \<times> token_flow list) list \<Rightarrow> flow_signal list" where
  "analyze_netflows now all_netflows =
     sort_key (\<lambda>x. - \<bar>fs_net_flow_usd x\<bar>)
       (concat (map (\<lambda>(chain, flows). List.map_filter (netflow_signal now chain) flows) all_netflows))"

subsection \<open>The Trade Aggregator\<close>

record agg =
  ag_symbol :: string
  ag_chain :: string
  ag_buys :: pyfloat
  ag_sells :: pyfloat
  ag_trades :: nat

definition stables :: "string list" where
  "stables = [''USDC'', ''USDT'', ''DAI'', ''BUSD'', ''WETH'', ''WBTC'', ''WBNB'', ''WSOL'']"

text \<open>
  \<^verbatim>\<open>token_agg\<close> is a dict, kept in insertion order: a new key is entered at the end with
  the fresh record \<open>init\<close>, then the record under the key is updated by \<open>f\<close>.
\<close>

fun agg_apply :: "string \<Rightarrow> agg \<Rightarrow> (agg \<Rightarrow> agg) \<Rightarrow> (string \<times> agg) list \<Rightarrow> (string \<times> agg) list" where
  "agg_apply key init f [] = [(key, f init)]"
| "agg_apply key init f ((k, a) # rest) =
     (if k = key then (k, f a) # rest else (k, a) # agg_apply key init f rest)"

definition add_trade :: "string \<Rightarrow> (string \<times> agg) list \<Rightarrow> trade \<Rightarrow> (string \<times> agg) list" where
  "add_trade chain token_agg trade =
     (let bought = get_str (token_bought_symbol trade) [];
          sold = get_str (token_sold_symbol trade) [];
          usd_value = get_float (trade_value_usd trade) 0
      in if usd_value = 0 then token_agg
         else
           let token_agg =
                 (if bought \<noteq> [] \<and> upper bought \<notin> set stables then
                    agg_apply (upper bought @ ''_'' @ chain)
                      \<lparr>ag_symbol = upper bought, ag_chain = chain, ag_buys = 0, ag_sells = 0, ag_trades = 0\<rparr>
                      (\<lambda>a. a\<lparr>ag_buys := fadd (ag_buys a) usd_value, ag_trades := ag_trades a + 1\<rparr>)
                      token_agg
                  else token_agg)
           in if sold \<noteq> [] \<and> upper sold \<notin> set stables then
                agg_apply (upper sold @ ''_'' @ chain)
                  \<lparr>ag_symbol = upper sold, ag_chain = chain, ag_buys = 0, ag_sells = 0, ag_trades = 0\<rparr>
                  (\<lambda>a. a\<lparr>ag_sells := fadd (ag_sells a) usd_value, ag_trades := ag_trades a + 1\<rparr>)
                  token_agg
              else token_agg)"

definition aggregate_trades :: "(string \<times> trade list) list \<Rightarrow> (string \<times> agg) list" where
  "aggregate_trades all_trades =
     foldl (\<lambda>token_agg (chain, trades). foldl (add_trade chain) token_agg trades) [] all_trades"

text \<open>The body of the second loop of \<^verbatim>\<open>analyze_dex_trades\<close>, for the record of one key.\<close>

definition dex_signal :: "string \<Rightarrow> agg \<Rightarrow> flow_signal option" where
  "dex_signal now agg =
     (let total = fadd (ag_buys agg) (ag_sells agg)
      in if total < 5000 then None
         else
           let net = fsub (ag_buys agg) (ag_sells agg);
               buy_ratio = (if total > 0 then fdiv (ag_buys agg) total else fl (1 / 2))
           in if buy_ratio > fl (6 / 10) \<or> buy_ratio < fl (4 / 10) then
                let direction = (if net > 0 then ''LONG'' else ''SHORT'');
                    confidence = min (fadd (fmul \<bar>fsub buy_ratio (fl (1 / 2))\<bar> 2) (fl (2 / 10))) 1;
                    confidence = (if ag_trades agg \<ge> 3 then min (fadd confidence (fl (1 / 10))) 1
                                  else confidence)
                in Some \<lparr>fs_symbol = ag_symbol agg,
                         fs_chain = ag_chain agg,
                         fs_direction = direction,
                         fs_net_flow_usd = py_round net 2,
                         fs_confidence = py_round confidence 2,
                         fs_source = ''nansen_smart_money_dex'',
                         fs_timestamp = now,
                         fs_extra = DexExtra (py_round buy_ratio 3) (py_round total 2) (ag_trades agg)\<rparr>
              else None)"

definition analyze_dex_trades :: "string \<Rightarrow> (string \<times> trade list) list \<Rightarrow> flow_signal list" where
  "analyze_dex_trades now all_trades =
     sort_key (\<lambda>x. - \<bar>fs_net_flow_usd x\<bar>)
       (List.map_filter (dex_signal now) (map snd (aggregate_trades all_trades)))"

subsection \<open>The Signal Merger\<close>

text \<open>\<^verbatim>\<open>merged\<close> is a dict keyed by symbol, kept in insertion order.\<close>

definition merge_update :: "merged_signal \<Rightarrow> flow_signal \<Rightarrow> merged_signal" where
  "merge_update existing sg =
     existing
       \<lparr>ms_sources := ms_sources existing @ [fs_source sg],
        ms_confidence :=
          (if ms_direction existing = fs_direction sg
           then min (fadd (ms_confidence existing) (fl (2 / 10))) 1
           else max (fsub (ms_confidence existing) (fl (3 / 10))) (fl (1 / 10))),
        ms_net_flow_usd := fadd (ms_net_flow_usd existing) (fs_net_flow_usd sg)\<rparr>"

fun merge_into :: "flow_signal \<Rightarrow> (string \<times> merged_signal) list \<Rightarrow> (string \<times> merged_signal) list" where
  "merge_into sg [] =
     [(fs_symbol sg,
       \<lparr>ms_symbol = fs_symbol sg,
        ms_chain = fs_chain sg,
        ms_direction = fs_direction sg,
        ms_confidence = fs_confidence sg,
        ms_sources = [fs_source sg],
        ms_net_flow_usd = fs_net_flow_usd sg,
        ms_timestamp = fs_timestamp sg\<rparr>)]"
| "merge_into sg ((key, existing) # rest) =
     (if key = fs_symbol sg then (key, merge_update existing sg) # rest
      else (key, existing) # merge_into sg rest)"

definition merge_signals :: "flow_signal list \<Rightarrow> flow_signal list \<Rightarrow> merged_signal list" where
  "merge_signals netflow_signals dex_signals =
     sort_key (\<lambda>x. - ms_confidence x)
       (map snd (foldl (\<lambda>merged sg. merge_into sg merged) [] (netflow_signals @ dex_signals)))"

section \<open>Example data\<close>

text \<open>
  A ledger of three expired active predictions: the LONG and SHORT predictions of the
  scenarios of the specification, and one on an asset that has no price feed.
\<close>

definition ex_long :: prediction where
  "ex_long =
     \<lparr>asset = Some ''BTC'', direction = Some ''LONG'', entry_price = Some 100000000,
      take_profit = Some 110000000, stop_loss = Some 90000000, timeframe_hours = Some 24,
      created_at = Some ''2024-01-01T00:00:00'', expires_at = Some 1704153600,
      status = Some ''active'', original_signal = None, local_id = Some 0,
      result_price = None, verified_at = None\<rparr>"

definition ex_short :: prediction where
  "ex_short =
     \<lparr>asset = Some ''ETH'', direction = Some ''SHORT'', entry_price = Some 100000000,
      take_profit = Some 90000000, stop_loss = Some 110000000, timeframe_hours = Some 24,
      created_at = Some ''2024-01-01T00:00:00'', expires_at = Some 1704153600,
      status = Some ''active'', original_signal = None, local_id = Some 1,
      result_price = None, verified_at = None\<rparr>"



definition ex_price :: "nat \<Rightarrow> string \<Rightarrow> pyfloat option" where
  "ex_price i a = (if a = ''BTC'' then Some 105 else if a = ''ETH'' then Some 112 else None)"

definition ex_clock :: "nat \<Rightarrow> string" where
  "ex_clock i = ''2024-01-03T00:00:00''"

definition ex_now :: pyfloat where
  "ex_now = 1704240000"

definition ex_flat :: prediction where
  "ex_flat = ex_short\<lparr>direction := Some ''FLAT''\<rparr>"

definition ex_won :: prediction where
  "ex_won = ex_long\<lparr>status := Some ''won'', result_price := Some 105000000,
                     verified_at := Some ''2024-01-02T12:00:00''\<rparr>"

definition ex_scans :: "scan list" where
  "ex_scans = [ExpiryScan ex_now, PriceScan ex_now ex_price ex_clock, ExpiryScan ex_now]"

definition ex_signal :: trade_signal where
  "ex_signal = \<lparr>sg_symbol = ''BTC'', sg_signal = Some 1, sg_price = 100,
                 sg_take_profit_price = None, sg_stop_loss_price = None\<rparr>"

text \<open>
  A signal at price 3.0 with no take-profit and no stop-loss, created at
  2024-01-01 00:00:00 UTC, which is 1704067200 seconds after the epoch, on a host whose
  local time is five hours west of UTC, and on a host at UTC.
\<close>

definition ex_signal_3 :: trade_signal where
  "ex_signal_3 = \<lparr>sg_symbol = ''BTC'', sg_signal = Some 1, sg_price = 3,
                   sg_take_profit_price = None, sg_stop_loss_price = None\<rparr>"

definition ex_utcnow :: naive_datetime where
  "ex_utcnow = \<lparr>dt_seconds = 1704067200, dt_microsecond = 0\<rparr>"

definition ex_isoformat :: "naive_datetime \<Rightarrow> string" where
  "ex_isoformat dt = ''2024-01-01T00:00:00''"

definition ex_created_west :: prediction where
  "ex_created_west =
     last (fst (create_prediction_tx ex_isoformat (- 18000) ex_utcnow ex_utcnow [] ex_signal_3 24))"

definition ex_created_utc :: prediction where
  "ex_created_utc =
     last (fst (create_prediction_tx ex_isoformat 0 ex_utcnow ex_utcnow [] ex_signal_3 24))"

text \<open>
  Predictions of a ledger file: the SHORT prediction with another direction string, the
  LONG prediction with an entry price of \<open>10 ^ 400\<close>, and with \<^verbatim>\<open>null\<close> for a stop-loss.
\<close>

definition ex_json_flat :: json_prediction where
  "ex_json_flat = json_of ex_flat"

definition ex_json_huge :: json_prediction where
  "ex_json_huge = (json_of ex_long)\<lparr>jp_entry_price := Some (JInt (10 ^ 400))\<rparr>"

definition ex_json_null :: json_prediction where
  "ex_json_null = (json_of ex_long)\<lparr>jp_stop_loss := Some JNull\<rparr>"

text \<open>Signals of one symbol from the two sources, as the analyzers emit them.\<close>

definition ex_sig_net :: flow_signal where
  "ex_sig_net =
     \<lparr>fs_symbol = ''SOL'', fs_chain = ''solana'', fs_direction = ''LONG'',
      fs_net_flow_usd = 120000, fs_confidence = fl (5 / 10),
      fs_source = ''nansen_smart_money_netflow'', fs_timestamp = ''2024-01-01T00:00:00+00:00'',
      fs_extra = NetflowExtra 0 0 0 0 1\<rparr>"

definition ex_sig_dex :: flow_signal where
  "ex_sig_dex =
     \<lparr>fs_symbol = ''SOL'', fs_chain = ''solana'', fs_direction = ''SHORT'',
      fs_net_flow_usd = - 2000, fs_confidence = fl (4 / 10),
      fs_source = ''nansen_smart_money_dex'', fs_timestamp = ''2024-01-01T00:00:00+00:00'',
      fs_extra = DexExtra (fl (4 / 10)) 10000 2\<rparr>"

definition ex_sig_weak :: flow_signal where
  "ex_sig_weak = ex_sig_net\<lparr>fs_confidence := fl (3 / 10)\<rparr>"

definition ex_sig_strong :: flow_signal where
  "ex_sig_strong = ex_sig_dex\<lparr>fs_direction := ''LONG'', fs_net_flow_usd := 7000, fs_confidence := fl (9 / 10)\<rparr>"

definition ex_sig_sure :: flow_signal where
  "ex_sig_sure = ex_sig_net\<lparr>fs_confidence := fl (9 / 10)\<rparr>"

definition ex_sig_against :: flow_signal where
  "ex_sig_against = ex_sig_dex\<lparr>fs_confidence := fl (5 / 10)\<rparr>"

section \<open>Rounding\<close>

text \<open>
  What the theorems below need of \<open>fl\<close>: it moves a number by at most half a unit in the
  last place, keeps its sign, and the unit in the last place of a number is at most
  \<open>2 powi (- 52)\<close> times its size.
\<close>

lemma rne_error: "\<bar>of_int (rne q) - q\<bar> \<le> 1 / 2"
proof -
  have "of_int \<lfloor>q\<rfloor> \<le> q" and "q < of_int \<lfloor>q\<rfloor> + 1"
    by linarith+
  then show ?thesis
    by (auto simp: rne_def Let_def)
qed

lemma rne_nonneg: "0 \<le> q \<Longrightarrow> 0 \<le> rne q"
  by (auto simp: rne_def Let_def)

lemma rne_nonpos: "q \<le> 0 \<Longrightarrow> rne q \<le> 0"
proof -
  assume q: "q \<le> 0"
  have f: "\<lfloor>q\<rfloor> \<le> 0" using q by linarith
  show ?thesis
  proof (cases "q = 0")
    case True
    then show ?thesis by (simp add: rne_def)
  next
    case False
    with q have "q < 0" by simp
    then have "\<lfloor>q\<rfloor> \<le> -1" by linarith
    then have "\<lfloor>q\<rfloor> + 1 \<le> 0" by simp
    with f show ?thesis
      by (auto simp: rne_def Let_def)
  qed
qed

lemma rne_ge_floor: "\<lfloor>q\<rfloor> \<le> rne q"
  by (simp add: rne_def Let_def)

lemma rne_minus: "rne (- q) = - rne q"
proof (cases "q = of_int \<lfloor>q\<rfloor>")
  case True
  then obtain n where "q = of_int n" by blast
  then show ?thesis by (simp add: rne_def)
next
  case False
  then have c: "\<lfloor>- q\<rfloor> = - \<lfloor>q\<rfloor> - 1"
    by (metis ceiling_altdef ceiling_def add.commute add_diff_cancel_left' diff_minus_eq_add minus_diff_eq of_int_floor_cancel uminus_add_conv_diff)
  have f: "q - of_int \<lfloor>q\<rfloor> \<noteq> 0" using False by simp
  have "of_int \<lfloor>q\<rfloor> \<le> q" by linarith
  with f have g: "0 < q - of_int \<lfloor>q\<rfloor>" by linarith
  show ?thesis
    using g by (auto simp: rne_def Let_def c)
qed

lemma ulp_pos: "0 < ulp q"
  by (simp add: ulp_def)

lemma fl_error: "\<bar>fl q - q\<bar> \<le> ulp q / 2"
proof (cases "q = 0")
  case True
  then show ?thesis using ulp_pos[of q] by (simp add: fl_def)
next
  case False
  have u: "0 < ulp q" by (rule ulp_pos)
  have "fl q - q = (of_int (rne (q / ulp q)) - q / ulp q) * ulp q"
    using False u by (simp add: fl_def field_simps)
  then have "\<bar>fl q - q\<bar> = \<bar>of_int (rne (q / ulp q)) - q / ulp q\<bar> * ulp q"
    using u by (simp add: abs_mult)
  also have "\<dots> \<le> (1 / 2) * ulp q"
    using rne_error[of "q / ulp q"] u by (intro mult_right_mono) simp_all
  finally show ?thesis by simp
qed

lemma fl_nonneg: "0 \<le> q \<Longrightarrow> 0 \<le> fl q"
  using ulp_pos[of q] by (simp add: fl_def rne_nonneg zero_le_mult_iff)

lemma fl_nonpos: "q \<le> 0 \<Longrightarrow> fl q \<le> 0"
  using ulp_pos[of q] by (simp add: fl_def rne_nonpos mult_le_0_iff divide_le_0_iff)

lemma bexp_le_0: "\<bar>q\<bar> < 2 \<Longrightarrow> bexp \<bar>q\<bar> \<le> 0"
proof (cases "1 \<le> \<bar>q\<bar>")
  case True
  assume "\<bar>q\<bar> < 2"
  with True have "\<lfloor>\<bar>q\<bar>\<rfloor> = 1" by linarith
  then show ?thesis using True by (simp add: bexp_def bitlen_alt_def)
next
  case False
  then show ?thesis by (simp add: bexp_def bitlen_nonneg)
qed

lemma ulp_small: "\<bar>q\<bar> < 2 \<Longrightarrow> ulp q \<le> 2 powi (- 52)"
proof -
  assume "\<bar>q\<bar> < 2"
  then have "max (bexp \<bar>q\<bar>) (- 1022) - 52 \<le> - 52"
    using bexp_le_0[of q] by simp
  then show ?thesis
    unfolding ulp_def by (intro power_int_increasing) simp_all
qed

lemma fl_error_small: "\<bar>q\<bar> < 2 \<Longrightarrow> \<bar>fl q - q\<bar> \<le> 2 powi (- 53)"
proof -
  assume a: "\<bar>q\<bar> < 2"
  have "\<bar>fl q - q\<bar> \<le> ulp q / 2" by (rule fl_error)
  also have "\<dots> \<le> 2 powi (- 52) / 2"
    using ulp_small[OF a] by simp
  also have "\<dots> = 2 powi (- 53)"
    by (simp add: power_int_minus)
  finally show ?thesis .
qed

lemma two_powi_m53: "(2::rat) powi (- 53) = 1 / 9007199254740992"
  by (simp add: power_int_minus)

lemma fl_error_small_num: "\<bar>q\<bar> < 2 \<Longrightarrow> \<bar>fl q - q\<bar> \<le> 1 / 9007199254740992"
  using fl_error_small[of q] unfolding two_powi_m53 .

lemma bexp_bounds:
  assumes "0 < q"
  shows "2 powi (bexp q) \<le> q" and "q < 2 powi (bexp q + 1)"
proof -
  show "2 powi (bexp q) \<le> q"
  proof (cases "1 \<le> q")
    case True
    define n where "n = \<lfloor>q\<rfloor>"
    have n1: "1 \<le> n" using True unfolding n_def by linarith
    then have n0: "0 < n" by simp
    from bitlen_bounds[OF n0] have lo: "2 ^ nat (bitlen n - 1) \<le> n" by simp
    have b1: "1 \<le> bitlen n" using n0 by (simp add: bitlen_alt_def)
    have "(2::rat) powi (bitlen n - 1) = 2 ^ nat (bitlen n - 1)"
      using b1 by (simp add: power_int_def)
    also have "\<dots> = of_int (2 ^ nat (bitlen n - 1))" by simp
    also have "\<dots> \<le> of_int n" using lo by (simp only: of_int_le_iff)
    also have "\<dots> \<le> q" unfolding n_def by linarith
    finally show ?thesis using True by (simp add: bexp_def n_def)
  next
    case False
    define m where "m = \<lceil>1 / q\<rceil> - 1"
    have q1: "1 < 1 / q" using False assms by simp
    then have m1: "1 \<le> m" unfolding m_def by linarith
    then have m0: "0 < m" by simp
    have up: "1 / q \<le> of_int m + 1" unfolding m_def by (simp add: le_of_int_ceiling)
    from bitlen_bounds[OF m0] have hi: "m < 2 ^ nat (bitlen m)" by simp
    then have "m + 1 \<le> 2 ^ nat (bitlen m)" by simp
    then have "(of_int (m + 1) :: rat) \<le> of_int (2 ^ nat (bitlen m))" by (simp only: of_int_le_iff)
    then have "1 / q \<le> 2 ^ nat (bitlen m)" using up by simp
    then have "1 \<le> 2 ^ nat (bitlen m) * q" using assms by (simp add: field_simps)
    then have "1 / 2 ^ nat (bitlen m) \<le> q" by (simp add: field_simps)
    moreover have "(2::rat) powi (- bitlen m) = 1 / 2 ^ nat (bitlen m)"
      using bitlen_nonneg[of m] by (simp add: power_int_def field_simps power_inverse)
    ultimately show ?thesis using False by (simp add: bexp_def m_def)
  qed
  show "q < 2 powi (bexp q + 1)"
  proof (cases "1 \<le> q")
    case True
    define n where "n = \<lfloor>q\<rfloor>"
    have n1: "1 \<le> n" using True unfolding n_def by linarith
    then have n0: "0 < n" by simp
    from bitlen_bounds[OF n0] have hi: "n < 2 ^ nat (bitlen n)" by simp
    then have "n + 1 \<le> 2 ^ nat (bitlen n)" by simp
    then have "(of_int (n + 1) :: rat) \<le> of_int (2 ^ nat (bitlen n))" by (simp only: of_int_le_iff)
    moreover have "q < of_int n + 1" unfolding n_def by linarith
    ultimately have "q < 2 ^ nat (bitlen n)" by simp
    moreover have "(2::rat) powi (bitlen n) = 2 ^ nat (bitlen n)"
      using bitlen_nonneg[of n] by (simp add: power_int_def)
    ultimately show ?thesis using True by (simp add: bexp_def n_def)
  next
    case False
    define m where "m = \<lceil>1 / q\<rceil> - 1"
    have q1: "1 < 1 / q" using False assms by simp
    then have m1: "1 \<le> m" unfolding m_def by linarith
    then have m0: "0 < m" by simp
    have b1: "1 \<le> bitlen m" using m0 by (simp add: bitlen_alt_def)
    have lt: "of_int m < 1 / q" unfolding m_def by linarith
    from bitlen_bounds[OF m0] have lo: "2 ^ nat (bitlen m - 1) \<le> m" by simp
    then have "(of_int (2 ^ nat (bitlen m - 1)) :: rat) \<le> of_int m" by (simp only: of_int_le_iff)
    then have "(2::rat) ^ nat (bitlen m - 1) \<le> of_int m" by simp
    then have "2 ^ nat (bitlen m - 1) < 1 / q" using lt by linarith
    then have "2 ^ nat (bitlen m - 1) * q < 1" using assms by (simp add: field_simps)
    then have "q < 1 / 2 ^ nat (bitlen m - 1)" by (simp add: field_simps)
    moreover have "(2::rat) powi (- bitlen m + 1) = 1 / 2 ^ nat (bitlen m - 1)"
    proof -
      have "- bitlen m + 1 = - (bitlen m - 1)" by simp
      then have "(2::rat) powi (- bitlen m + 1) = inverse (2 powi (bitlen m - 1))"
        by (simp only: power_int_minus)
      also have "\<dots> = 1 / 2 ^ nat (bitlen m - 1)"
        using b1 by (simp add: power_int_def field_simps)
      finally show ?thesis .
    qed
    ultimately show ?thesis using False by (simp add: bexp_def m_def)
  qed
qed

lemma ulp_le:
  assumes "1 / 100 \<le> q"
  shows "ulp q \<le> q"
proof -
  have q0: "0 < q" using assms by simp
  then have a: "\<bar>q\<bar> = q" by simp
  show ?thesis
  proof (cases "- 1022 \<le> bexp q")
    case True
    then have "ulp q = 2 powi (bexp q - 52)" by (simp add: ulp_def a max_def)
    also have "\<dots> \<le> 2 powi (bexp q)" by (intro power_int_increasing) simp_all
    also have "\<dots> \<le> q" using bexp_bounds(1)[OF q0] .
    finally show ?thesis .
  next
    case False
    then have "ulp q = 2 powi (- 1074)" by (simp add: ulp_def a max_def)
    also have "\<dots> \<le> 2 powi (- 7)" by (intro power_int_increasing) simp_all
    also have "\<dots> \<le> 1 / 100" by (simp add: power_int_minus)
    finally show ?thesis using assms by simp
  qed
qed

lemma fl_pos:
  assumes "1 / 100 \<le> q"
  shows "0 < fl q"
proof -
  have q0: "0 < q" using assms by simp
  have u: "0 < ulp q" by (rule ulp_pos)
  have "1 \<le> q / ulp q" using ulp_le[OF assms] u by (simp add: field_simps)
  then have "1 \<le> \<lfloor>q / ulp q\<rfloor>" by linarith
  then have "1 \<le> rne (q / ulp q)" using rne_ge_floor[of "q / ulp q"] by linarith
  then have "0 < (of_int (rne (q / ulp q)) :: rat)" by simp
  then show ?thesis using q0 u by (simp add: fl_def zero_less_mult_iff)
qed

lemma py_round_nonneg: "0 \<le> x \<Longrightarrow> 0 \<le> py_round x nd"
  by (simp add: py_round_def fl_nonneg rne_nonneg)

lemma py_round_nonpos: "x \<le> 0 \<Longrightarrow> py_round x nd \<le> 0"
  by (simp add: py_round_def fl_nonpos rne_nonpos mult_le_0_iff divide_le_0_iff)

lemma py_round_pos:
  assumes "1 / 100 \<le> x"
  shows "0 < py_round x 2"
proof -
  have "1 \<le> x * 10 ^ 2" using assms by simp
  then have "1 \<le> \<lfloor>x * 10 ^ 2\<rfloor>" by linarith
  then have "1 \<le> rne (x * 10 ^ 2)" using rne_ge_floor[of "x * 10 ^ 2"] by linarith
  then have "(1::rat) \<le> of_int (rne (x * 10 ^ 2))" by simp
  then have "1 / 100 \<le> (of_int (rne (x * 10 ^ 2)) :: rat) / 10 ^ 2" by simp
  then show ?thesis unfolding py_round_def by (rule fl_pos)
qed

lemma fl_consts:
  "fl (2 / 10) = 3602879701896397 / 18014398509481984"
  "fl (3 / 10) = 5404319552844595 / 18014398509481984"
  "fl (1 / 10) = 3602879701896397 / 36028797018963968"
  by code_simp+

lemma bexp_unique:
  assumes "0 < q" and lo: "2 powi e \<le> q" and hi: "q < 2 powi (e + 1)"
  shows "bexp q = e"
proof (rule ccontr)
  assume ne: "bexp q \<noteq> e"
  note b = bexp_bounds[OF assms(1)]
  show False
  proof (cases "bexp q < e")
    case True
    then have "(2::rat) powi (bexp q + 1) \<le> 2 powi e"
      by (intro power_int_increasing) simp_all
    with b(2) lo show False by linarith
  next
    case False
    with ne have "e + 1 \<le> bexp q" by simp
    then have "(2::rat) powi (e + 1) \<le> 2 powi (bexp q)"
      by (intro power_int_increasing) simp_all
    with b(1) hi show False by linarith
  qed
qed

lemma fl_eval:
  assumes "2 powi e \<le> \<bar>q\<bar>" and "\<bar>q\<bar> < 2 powi (e + 1)" and "- 1022 \<le> e"
  shows "fl q = of_int (rne (q / 2 powi (e - 52))) * 2 powi (e - 52)"
proof -
  have "(0::rat) < 2 powi e" by simp
  with assms(1) have q: "0 < \<bar>q\<bar>" by linarith
  then have "q \<noteq> 0" by simp
  moreover have "bexp \<bar>q\<bar> = e" using q assms(1,2) by (rule bexp_unique)
  ultimately show ?thesis using assms(3) by (simp add: fl_def ulp_def max_def)
qed

lemma floor_rat_numeral: "\<lfloor>(numeral a :: rat) / numeral b\<rfloor> = numeral a div numeral b"
  by (metis floor_divide_of_int_eq of_int_numeral)

lemma floor_rat_neg_numeral: "\<lfloor>- (numeral a :: rat) / numeral b\<rfloor> = - numeral a div numeral b"
  by (metis divide_minus_left floor_divide_of_int_eq of_int_neg_numeral of_int_numeral)

lemma ulp_abs: "ulp \<bar>q\<bar> = ulp q"
  by (simp add: ulp_def)

lemma fl_abs_le: "\<bar>fl q\<bar> \<le> 3 / 2 * \<bar>q\<bar> + 1"
proof (cases "\<bar>q\<bar> < 2")
  case True
  have "\<bar>fl q - q\<bar> \<le> 1 / 9007199254740992" using True by (rule fl_error_small_num)
  then show ?thesis by linarith
next
  case False
  then have "1 / 100 \<le> \<bar>q\<bar>" by simp
  then have "ulp \<bar>q\<bar> \<le> \<bar>q\<bar>" by (rule ulp_le)
  then have "ulp q \<le> \<bar>q\<bar>" by (simp add: ulp_abs)
  moreover have "\<bar>fl q - q\<bar> \<le> ulp q / 2" by (rule fl_error)
  ultimately show ?thesis by linarith
qed

lemma fl_abs_ge:
  assumes "1 / 100 \<le> \<bar>q\<bar>"
  shows "\<bar>q\<bar> / 2 \<le> \<bar>fl q\<bar>"
proof -
  from assms have "ulp \<bar>q\<bar> \<le> \<bar>q\<bar>" by (rule ulp_le)
  then have "ulp q \<le> \<bar>q\<bar>" by (simp add: ulp_abs)
  moreover have "\<bar>fl q - q\<bar> \<le> ulp q / 2" by (rule fl_error)
  ultimately show ?thesis by linarith
qed

lemma rne_of_int: "rne (of_int k) = k"
  by (simp add: rne_def)

lemma fl_of_int:
  assumes "\<bar>n\<bar> < 2 ^ 53"
  shows "fl (of_int n) = of_int n"
proof (cases "n = 0")
  case True
  then show ?thesis by (simp add: fl_def)
next
  case False
  define a :: rat where "a = \<bar>of_int n\<bar>"
  have "1 \<le> \<bar>n\<bar>" using False by simp
  then have "(1::rat) \<le> of_int \<bar>n\<bar>" by (simp only: of_int_1_le_iff)
  then have a1: "1 \<le> a" by (simp add: a_def)
  have "(of_int \<bar>n\<bar> :: rat) < of_int (2 ^ 53)" using assms by (simp only: of_int_less_iff)
  then have a2: "a < 2 ^ 53" by (simp add: a_def)
  define e where "e = bexp a"
  have a0: "0 < a" using a1 by simp
  have b: "2 powi e \<le> a" "a < 2 powi (e + 1)"
    using bexp_bounds[OF a0] by (simp_all add: e_def)
  have e0: "0 \<le> e"
  proof (rule ccontr)
    assume "\<not> 0 \<le> e"
    then have "e + 1 \<le> 0" by simp
    then have "(2::rat) powi (e + 1) \<le> 2 powi 0" by (intro power_int_increasing) simp_all
    with b(2) a1 show False by simp
  qed
  have e52: "e \<le> 52"
  proof (rule ccontr)
    assume "\<not> e \<le> 52"
    then have "53 \<le> e" by simp
    then have "(2::rat) powi 53 \<le> 2 powi e" by (intro power_int_increasing) simp_all
    with b(1) a2 show False by simp
  qed
  define d where "d = nat (52 - e)"
  have "e - 52 = - int d" using e52 by (simp add: d_def)
  then have "(2::rat) powi (e - 52) = 1 / 2 ^ d"
    by (simp add: power_int_minus inverse_eq_divide)
  then have u: "ulp (of_int n) = 1 / 2 ^ d"
    using e0 by (simp add: ulp_def e_def a_def max_def)
  have "(of_int n :: rat) / ulp (of_int n) = of_int (n * 2 ^ d)" by (simp add: u)
  then have "rne (of_int n / ulp (of_int n)) = n * 2 ^ d" by (simp only: rne_of_int)
  then show ?thesis using False by (simp add: fl_def u)
qed

lemma float_of_int_exact: "\<bar>n\<bar> < 2 ^ 53 \<Longrightarrow> float_of_int n = of_int n"
  by (simp add: float_of_int_def fl_of_int)

lemma fl_numeral: "numeral k < (2::int) ^ 53 \<Longrightarrow> fl (numeral k) = numeral k"
  using fl_of_int[of "numeral k"] by simp

section \<open>The Price Verifier\<close>

text \<open>An integer of at most 300 decimal digits divides without overflow.\<close>

lemma divisible_int:
  assumes "\<bar>n\<bar> \<le> 10 ^ 300"
  shows "divisible (JInt n)"
proof -
  have "(of_int \<bar>n\<bar> :: rat) \<le> of_int (10 ^ 300)"
    using assms by (simp only: of_int_le_iff)
  then have "\<bar>(of_int n :: rat) / 1000000\<bar> \<le> 10 ^ 294" by simp
  moreover have "\<bar>fl (of_int n / 1000000)\<bar> \<le> 3 / 2 * \<bar>(of_int n :: rat) / 1000000\<bar> + 1"
    by (rule fl_abs_le)
  ultimately have "\<bar>fl (of_int n / 1000000)\<bar> \<le> 3 / 2 * 10 ^ 294 + 1" by linarith
  also have "\<dots> < 2 ^ 1024" by simp
  finally show ?thesis by (simp add: int_truediv_def)
qed

lemma ex_conv:
  "int_truediv 100000000 1000000 = 100"
  "int_truediv 110000000 1000000 = 110"
  "int_truediv 90000000 1000000 = 90"
  by code_simp+

lemma int_truediv_0: "int_truediv 0 1000000 = 0"
  by (simp add: int_truediv_def fl_def)

lemma verify_prediction_won_or_lost:
  "verify_prediction p cur = ''won'' \<or> verify_prediction p cur = ''lost''"
  by (simp add: verify_prediction_def Let_def)

lemma truediv_million_raises: "(\<exists>e. truediv_million v = Inl e) \<longleftrightarrow> \<not> divisible v"
  by (cases v rule: truediv_million.cases) (auto simp: Let_def)

lemma truediv_million_Inr: "divisible v \<Longrightarrow> \<exists>x. truediv_million v = Inr x"
  using truediv_million_raises[of v] by (cases "truediv_million v") auto

lemma divisible_iff: "divisible v \<longleftrightarrow> (\<exists>x. truediv_million v = Inr x)"
  using truediv_million_raises[of v] by (cases "truediv_million v") auto

lemma truediv_million_JInt:
  "divisible (JInt n) \<Longrightarrow> truediv_million (JInt n) = Inr (Finite (int_truediv n 1000000))"
  by (simp add: Let_def not_le)

lemma truediv_million_get_int:
  assumes "divisible (get_json (map_option JInt v) (JInt 0))"
  shows "truediv_million (get_json (map_option JInt v) (JInt 0))
           = Inr (Finite (int_truediv (get_int v 0) 1000000))"
proof (cases v)
  case None
  with assms show ?thesis
    using truediv_million_JInt[of 0] by (simp add: get_json_def get_int_def)
next
  case (Some n)
  with assms show ?thesis
    using truediv_million_JInt[of n] by (simp add: get_json_def get_int_def)
qed

lemma get_json_direction:
  "(get_json (map_option JStr d) (JStr ''LONG'') = JStr ''LONG'') = (get_str d ''LONG'' = ''LONG'')"
  by (cases d) (simp_all add: get_json_def get_str_def)

text \<open>
  On a prediction whose keys hold what \<^verbatim>\<open>create_prediction_tx\<close> writes, with integers
  in the range of the floats, the two readings of \<^verbatim>\<open>verify_prediction\<close> agree.
\<close>

lemma verify_prediction_json_of:
  assumes "prices_divisible (json_of p)"
  shows "verify_prediction_json (json_of p) cur = Inr (verify_prediction p cur)"
proof -
  from assms have
    e: "truediv_million (get_json (map_option JInt (entry_price p)) (JInt 0))
          = Inr (Finite (int_truediv (get_int (entry_price p) 0) 1000000))" and
    t: "truediv_million (get_json (map_option JInt (take_profit p)) (JInt 0))
          = Inr (Finite (int_truediv (get_int (take_profit p) 0) 1000000))" and
    s: "truediv_million (get_json (map_option JInt (stop_loss p)) (JInt 0))
          = Inr (Finite (int_truediv (get_int (stop_loss p) 0) 1000000))"
    by (simp_all add: prices_divisible_def json_of_def truediv_million_get_int)
  show ?thesis
    by (simp add: verify_prediction_json_def verify_prediction_def json_of_def e t s
        get_json_direction Let_def)
qed

lemma huge_quotient: "\<not> divisible (JInt (10 ^ 400))"
proof -
  have "\<bar>(10::rat) ^ 394\<bar> / 2 \<le> \<bar>fl (10 ^ 394)\<bar>"
    by (rule fl_abs_ge) simp
  moreover have "(2::rat) ^ 1024 \<le> \<bar>(10::rat) ^ 394\<bar> / 2" by simp
  ultimately have "(2::rat) ^ 1024 \<le> \<bar>fl (10 ^ 394)\<bar>" by linarith
  moreover have "(of_int (10 ^ 400) :: rat) / 1000000 = 10 ^ 394" by simp
  ultimately show ?thesis by (simp add: int_truediv_def not_less del: of_int_power)
qed

text \<open>
  C10. The claim: the decision function of the Price Verifier is total and two-valued, for
  every prediction record whatever its direction, entry, take-profit and stop-loss values.
  As worded it fails, because \<^verbatim>\<open>verify_prediction\<close> divides the three stored values by
  1,000,000 before it decides: it raises exactly when one of them is not a number or is
  an integer whose quotient is beyond the range of the floats. Amended: when the three
  values, absent ones read as zero, are booleans, floats or integers whose quotient by
  1,000,000 is in the range of the floats, it answers \<open>won\<close> or \<open>lost\<close>, for every
  direction and every reference price; in no case does it answer \<open>inconclusive\<close>; and a
  direction other than the string \<open>LONG\<close> is decided, or raises, exactly as \<open>SHORT\<close>
  does.
\<close>

theorem verify_prediction_json_two_valued:
  "((\<exists>e. verify_prediction_json p cur = Inl e) \<longleftrightarrow> \<not> prices_divisible p)
   \<and> (prices_divisible p \<longrightarrow>
        verify_prediction_json p cur = Inr ''won'' \<or> verify_prediction_json p cur = Inr ''lost'')
   \<and> verify_prediction_json p cur \<noteq> Inr ''inconclusive''
   \<and> (get_json (jp_direction p) (JStr ''LONG'') \<noteq> JStr ''LONG'' \<longrightarrow>
        verify_prediction_json p cur
          = verify_prediction_json (p\<lparr>jp_direction := Some (JStr ''SHORT'')\<rparr>) cur)"
proof -
  let ?e = "truediv_million (get_json (jp_entry_price p) (JInt 0))"
  let ?t = "truediv_million (get_json (jp_take_profit p) (JInt 0))"
  let ?s = "truediv_million (get_json (jp_stop_loss p) (JInt 0))"
  have a: "(\<exists>e. verify_prediction_json p cur = Inl e) \<longleftrightarrow> \<not> prices_divisible p"
    by (cases ?e; cases ?t; cases ?s)
       (simp_all add: verify_prediction_json_def prices_divisible_def divisible_iff Let_def)
  have b: "verify_prediction_json p cur = Inr ''won'' \<or> verify_prediction_json p cur = Inr ''lost''"
    if "prices_divisible p"
    using that
    by (cases ?e; cases ?t; cases ?s)
       (simp_all add: verify_prediction_json_def prices_divisible_def divisible_iff Let_def)
  have c: "verify_prediction_json p cur \<noteq> Inr ''inconclusive''"
    by (cases ?e; cases ?t; cases ?s) (simp_all add: verify_prediction_json_def Let_def)
  have d: "verify_prediction_json p cur
          = verify_prediction_json (p\<lparr>jp_direction := Some (JStr ''SHORT'')\<rparr>) cur"
    if "get_json (jp_direction p) (JStr ''LONG'') \<noteq> JStr ''LONG''"
    using that
    by (cases ?e; cases ?t; cases ?s)
       (simp_all add: verify_prediction_json_def Let_def get_json_def)
  from a b c d show ?thesis by blast
qed

text \<open>A direction that is neither \<open>LONG\<close> nor \<open>SHORT\<close>, with the stop-loss breached.\<close>

theorem verify_prediction_json_two_valued_witness:
  "prices_divisible ex_json_flat
   \<and> get_json (jp_direction ex_json_flat) (JStr ''LONG'') \<noteq> JStr ''LONG''
   \<and> verify_prediction_json ex_json_flat 112 = Inr ''lost''
   \<and> verify_prediction_json ex_json_flat 112
       = verify_prediction_json (ex_json_flat\<lparr>jp_direction := Some (JStr ''SHORT'')\<rparr>) 112"
proof -
  have v: "divisible (JInt 100000000)" "divisible (JInt 90000000)" "divisible (JInt 110000000)"
    by (rule divisible_int, simp)+
  have h1: "prices_divisible ex_json_flat"
    by (simp add: prices_divisible_def ex_json_flat_def json_of_def ex_flat_def ex_short_def
        get_json_def v del: divisible.simps)
  have h2: "get_json (jp_direction ex_json_flat) (JStr ''LONG'') \<noteq> JStr ''LONG''"
    by (simp add: ex_json_flat_def json_of_def ex_flat_def ex_short_def get_json_def)
  have t: "truediv_million (JInt 100000000) = Inr (Finite 100)"
    "truediv_million (JInt 90000000) = Inr (Finite 90)"
    "truediv_million (JInt 110000000) = Inr (Finite 110)"
    using v by (simp_all add: truediv_million_JInt ex_conv del: divisible.simps truediv_million.simps)
  have e: "verify_prediction_json (ex_json_flat\<lparr>jp_direction := Some (JStr ''SHORT'')\<rparr>) 112 = Inr ''lost''"
    by (simp add: verify_prediction_json_def ex_json_flat_def json_of_def ex_flat_def ex_short_def
        get_json_def Let_def t del: truediv_million.simps)
  from verify_prediction_json_two_valued[of ex_json_flat 112] h1 h2 e
  show ?thesis by simp
qed

text \<open>
  An entry price of \<open>10 ^ 400\<close> raises \<^verbatim>\<open>OverflowError\<close>, and \<^verbatim>\<open>null\<close> for a stop-loss
  raises \<^verbatim>\<open>TypeError\<close>: no answer is returned.
\<close>

theorem verify_prediction_json_raises:
  "verify_prediction_json ex_json_huge 105 = Inl OverflowError
   \<and> verify_prediction_json ex_json_null 105 = Inl TypeError"
proof -
  have v: "divisible (JInt 100000000)" "divisible (JInt 110000000)"
    by (rule divisible_int, simp)+
  have t: "truediv_million (JInt 100000000) = Inr (Finite 100)"
    "truediv_million (JInt 110000000) = Inr (Finite 110)"
    using v by (simp_all add: truediv_million_JInt ex_conv del: divisible.simps truediv_million.simps)
  have h: "truediv_million (JInt (10 ^ 400)) = Inl OverflowError"
    using huge_quotient by (simp add: Let_def not_less)
  have "get_json (jp_entry_price ex_json_huge) (JInt 0) = JInt (10 ^ 400)"
    by (simp add: ex_json_huge_def get_json_def)
  then have "truediv_million (get_json (jp_entry_price ex_json_huge) (JInt 0)) = Inl OverflowError"
    by (simp only: h)
  then have a: "verify_prediction_json ex_json_huge 105 = Inl OverflowError"
    by (simp add: verify_prediction_json_def Let_def)
  have "truediv_million (get_json (jp_entry_price ex_json_null) (JInt 0)) = Inr (Finite 100)"
    "truediv_million (get_json (jp_take_profit ex_json_null) (JInt 0)) = Inr (Finite 110)"
    "truediv_million (get_json (jp_stop_loss ex_json_null) (JInt 0)) = Inl TypeError"
    by (simp_all add: ex_json_null_def json_of_def ex_long_def get_json_def t
        del: truediv_million.simps(1))
  then have b: "verify_prediction_json ex_json_null 105 = Inl TypeError"
    by (simp add: verify_prediction_json_def Let_def)
  from a b show ?thesis by simp
qed

section \<open>The price-verification scan\<close>

text \<open>The saved ledger holds, position by position, the result of the loop body.\<close>

lemma process_expired_loop_Cons:
  "fst (process_expired_loop ct gp un i (pred # rest)) =
   process_one ct gp un i pred # fst (process_expired_loop ct gp un (Suc i) rest)"
  by (simp add: process_one_def split_beta split: option.splits)

lemma process_expired_loop_length:
  "length (fst (process_expired_loop ct gp un i preds)) = length preds"
proof (induction preds arbitrary: i)
  case Nil
  show ?case by simp
next
  case (Cons pred rest)
  show ?case
    unfolding process_expired_loop_Cons using Cons.IH[of "Suc i"] by simp
qed

lemma process_expired_loop_nth:
  "k < length preds \<Longrightarrow>
   fst (process_expired_loop ct gp un i preds) ! k = process_one ct gp un (i + k) (preds ! k)"
proof (induction preds arbitrary: i k)
  case Nil
  then show ?case by simp
next
  case (Cons pred rest)
  show ?case
  proof (cases k)
    case 0
    then show ?thesis
      unfolding process_expired_loop_Cons by simp
  next
    case (Suc k')
    with Cons.prems have "k' < length rest" by simp
    from Cons.IH[OF this, of "Suc i"] Suc show ?thesis
      unfolding process_expired_loop_Cons by simp
  qed
qed

lemma process_expired_predictions_nth:
  "k < length preds \<Longrightarrow>
   fst (process_expired_predictions ct gp un preds) ! k = process_one ct gp un k (preds ! k)"
  by (simp add: process_expired_predictions_def process_expired_loop_nth)

lemma process_expired_predictions_length:
  "length (fst (process_expired_predictions ct gp un preds)) = length preds"
  by (simp add: process_expired_predictions_def process_expired_loop_length)





section \<open>Terminal states\<close>

lemma verify_predictions_loop_length:
  "verify_predictions_loop ct preds = Inr preds' \<Longrightarrow> length preds' = length preds"
  by (induction preds arbitrary: preds') (auto split: option.splits if_splits sum.splits)

lemma verify_predictions_loop_inactive:
  "verify_predictions_loop ct preds = Inr preds' \<Longrightarrow> k < length preds \<Longrightarrow>
   status (preds ! k) \<noteq> Some ''active'' \<Longrightarrow> preds' ! k = preds ! k"
proof (induction preds arbitrary: preds' k)
  case Nil
  then show ?case by simp
next
  case (Cons pred rest)
  show ?case
  proof (cases k)
    case 0
    with Cons.prems show ?thesis
      by (auto split: option.splits if_splits sum.splits)
  next
    case (Suc k')
    with Cons.prems Cons.IH[of _ k'] show ?thesis
      by (auto split: option.splits if_splits sum.splits)
  qed
qed

lemma run_scan_length: "length (run_scan s ledger) = length ledger"
proof (cases s)
  case (ExpiryScan ct)
  then show ?thesis
    by (auto simp: verify_predictions_def verify_predictions_loop_length split: sum.splits)
next
  case (PriceScan ct gp un)
  then show ?thesis by (simp add: process_expired_predictions_length)
qed

lemma run_scan_inactive:
  assumes "k < length ledger" and "status (ledger ! k) \<noteq> Some ''active''"
  shows "run_scan s ledger ! k = ledger ! k"
proof (cases s)
  case (ExpiryScan ct)
  with assms show ?thesis
    by (auto simp: verify_predictions_def verify_predictions_loop_inactive split: sum.splits)
next
  case (PriceScan ct gp un)
  with assms show ?thesis
    by (simp add: process_expired_predictions_nth process_one_def)
qed

lemma run_scans_length: "length (run_scans ss ledger) = length ledger"
  by (induction ss arbitrary: ledger) (simp_all add: run_scan_length)

lemma run_scans_inactive:
  "k < length ledger \<Longrightarrow> status (ledger ! k) \<noteq> Some ''active'' \<Longrightarrow>
   run_scans ss ledger ! k = ledger ! k"
proof (induction ss arbitrary: ledger)
  case Nil
  then show ?case by simp
next
  case (Cons s ss)
  have "run_scan s ledger ! k = ledger ! k"
    using Cons.prems by (rule run_scan_inactive)
  moreover have "k < length (run_scan s ledger)"
    using Cons.prems by (simp add: run_scan_length)
  ultimately show ?case
    using Cons.IH[of "run_scan s ledger"] Cons.prems by simp
qed

text \<open>
  C7. A prediction whose status is not \<open>active\<close> (\<open>won\<close>, \<open>lost\<close>, \<open>needs_verification\<close>,
  \<open>needs_manual_verification\<close>, or anything else) is left completely unchanged by any
  sequence of ledger scans, each of them the expiry-marking scan or the
  price-verification scan, whatever the clock and the price feed answer: the non-active
  states are terminal.
\<close>

theorem inactive_prediction_unchanged:
  assumes "k < length ledger" and "status (ledger ! k) \<noteq> Some ''active''"
  shows "run_scans scans ledger ! k = ledger ! k \<and> length (run_scans scans ledger) = length ledger"
  using assms by (simp add: run_scans_inactive run_scans_length)

text \<open>
  A settled prediction through three scans, beside an active one that the first scan
  marks.
\<close>

theorem inactive_prediction_unchanged_witness:
  "0 < length [ex_won, ex_short]
   \<and> status ([ex_won, ex_short] ! 0) \<noteq> Some ''active''
   \<and> run_scans ex_scans [ex_won, ex_short] ! 0 = [ex_won, ex_short] ! 0
   \<and> length (run_scans ex_scans [ex_won, ex_short]) = length [ex_won, ex_short]"
proof -
  have h1: "0 < length [ex_won, ex_short]" by simp
  have h2: "status ([ex_won, ex_short] ! 0) \<noteq> Some ''active''"
    by (simp add: ex_won_def)
  from inactive_prediction_unchanged[OF h1 h2, of ex_scans] h1 h2 show ?thesis
    by blast
qed

lemma ex_scans_first_scan_marks:
  "map status (run_scans ex_scans [ex_won, ex_short]) = [Some ''won'', Some ''needs_verification'']"
  by (simp add: ex_scans_def verify_predictions_def ex_won_def ex_long_def ex_short_def ex_now_def
      process_expired_predictions_def)

section \<open>Creation\<close>

lemma process_one_local_id: "local_id (process_one ct gp un i p) = local_id p"
  by (simp add: process_one_def split: option.splits)

lemma verify_predictions_loop_local_id:
  "verify_predictions_loop ct preds = Inr preds' \<Longrightarrow> map local_id preds' = map local_id preds"
  by (induction preds arbitrary: preds') (auto split: option.splits if_splits sum.splits)

lemma run_scan_local_id: "map local_id (run_scan s ledger) = map local_id ledger"
proof (cases s)
  case (ExpiryScan ct)
  then show ?thesis
    by (auto simp: verify_predictions_def verify_predictions_loop_local_id split: sum.splits)
next
  case (PriceScan ct gp un)
  then show ?thesis
    by (simp add: list_eq_iff_nth_eq process_expired_predictions_length
        process_expired_predictions_nth process_one_local_id)
qed

lemma ids_sequential_Nil: "ids_sequential []"
  by (simp add: ids_sequential_def)

lemma ids_sequential_run_scan: "ids_sequential ledger \<Longrightarrow> ids_sequential (run_scan s ledger)"
  by (simp add: ids_sequential_def run_scan_local_id run_scan_length)

lemma ids_sequential_unused: "ids_sequential ledger \<Longrightarrow> Some (length ledger) \<notin> set (map local_id ledger)"
  by (auto simp: ids_sequential_def)

text \<open>
  With no microseconds on the clock, and all seconds below \<open>2 ^ 53\<close>, the stored
  \<^verbatim>\<open>expires_at\<close> is the clock reading plus the time frame, less the offset of local time.
\<close>

lemma timestamp_whole_seconds:
  assumes "dt_microsecond dt = 0" and "\<bar>dt_seconds dt - utcoffset\<bar> < 2 ^ 53"
  shows "timestamp utcoffset dt = of_int (dt_seconds dt - utcoffset)"
proof -
  have "fdiv (float_of_int 0) 1000000 = 0" by (simp add: fdiv_def float_of_int_def fl_def)
  then show ?thesis
    using assms fl_of_int[of "dt_seconds dt - utcoffset"]
    by (simp add: timestamp_def float_of_int_exact fadd_def del: of_int_diff)
qed

lemma create_prediction_tx_expires_at:
  assumes "dt_microsecond utcnow2 = 0"
    and "\<bar>dt_seconds utcnow2 - utcoffset\<bar> < 2 ^ 53"
    and "\<bar>hours * 3600\<bar> < 2 ^ 53"
    and "\<bar>dt_seconds utcnow2 + hours * 3600 - utcoffset\<bar> < 2 ^ 53"
  shows "expires_at (last (fst (create_prediction_tx isoformat utcoffset utcnow1 utcnow2 ledger signal hours)))
           = Some (of_int (dt_seconds utcnow2 + hours * 3600 - utcoffset))"
proof -
  have "fadd (timestamp utcoffset utcnow2) (float_of_int (hours * 3600))
          = fl (of_int (dt_seconds utcnow2 - utcoffset) + of_int (hours * 3600))"
    using assms(1,2,3) by (simp add: timestamp_whole_seconds float_of_int_exact fadd_def)
  also have "\<dots> = fl (of_int (dt_seconds utcnow2 + hours * 3600 - utcoffset))"
    by (simp add: algebra_simps)
  also have "\<dots> = of_int (dt_seconds utcnow2 + hours * 3600 - utcoffset)"
    using assms(4) by (rule fl_of_int)
  finally show ?thesis
    by (simp add: create_prediction_tx_def Let_def)
qed

text \<open>
  What \<^verbatim>\<open>create_prediction_tx\<close> saves: the ledger with one prediction appended, active,
  numbered with the length of the ledger, which in a ledger numbered in sequence is the
  next unused number; the defaults are the floats \<^verbatim>\<open>price * 1.05\<close> and
  \<^verbatim>\<open>price * 0.95\<close>, multiplied by 1,000,000 as floats and truncated.
\<close>

lemma create_prediction_tx_saved:
  "let (saved, lid) = create_prediction_tx isoformat utcoffset utcnow1 utcnow2 ledger signal hours;
       p = last saved
   in saved = ledger @ [p]
    \<and> status p = Some ''active''
    \<and> created_at p = Some (isoformat utcnow1)
    \<and> expires_at p = Some (fadd (timestamp utcoffset utcnow2) (float_of_int (hours * 3600)))
    \<and> local_id p = Some (length ledger)
    \<and> lid = length ledger
    \<and> entry_price p = Some (price_to_u64 (sg_price signal))
    \<and> (sg_take_profit_price signal = None \<longrightarrow>
         take_profit p = Some (price_to_u64 (fmul (sg_price signal) (fl (105 / 100)))))
    \<and> (sg_stop_loss_price signal = None \<longrightarrow>
         stop_loss p = Some (price_to_u64 (fmul (sg_price signal) (fl (95 / 100)))))
    \<and> (ids_sequential ledger \<longrightarrow>
         Some (length ledger) \<notin> set (map local_id ledger) \<and> ids_sequential saved)"
  by (auto simp: create_prediction_tx_def Let_def get_float_def ids_sequential_def)

text \<open>The entry price 3.0 and its defaults, float by float.\<close>

lemma price_to_u64_eq: "price_to_u64 price = py_int (fmul price 1000000)"
  by (simp add: price_to_u64_def PRICE_MULTIPLIER_def PRICE_DECIMALS_def float_of_int_exact)

lemma price_3_take_profit:
  "fl (21 / 20) = 4728779608739021 / 4503599627370496"
  "fmul 3 (4728779608739021 / 4503599627370496) = 1773292353277133 / 562949953421312"
  "fmul (1773292353277133 / 562949953421312) 1000000 = 6764573491200001 / 2147483648"
  by (simp_all add: fmul_def fl_eval[where e="0"] fl_eval[where e="1"] fl_eval[where e="21"]
      rne_def power_int_minus Let_def floor_rat_numeral)

lemma price_3_stop_loss:
  "fl (19 / 20) = 4278419646001971 / 4503599627370496"
  "fmul 3 (4278419646001971 / 4503599627370496) = 1604407367250739 / 562949953421312"
  "fmul (1604407367250739 / 562949953421312) 1000000 = 6120328396799999 / 2147483648"
  by (simp_all add: fmul_def fl_eval[where e="- 1"] fl_eval[where e="1"] fl_eval[where e="21"]
      rne_def power_int_minus Let_def floor_rat_numeral)

lemma price_3_stored:
  "price_to_u64 3 = 3000000"
  "price_to_u64 (fmul 3 (fl (21 / 20))) = 3150000"
  "price_to_u64 (fmul 3 (fl (19 / 20))) = 2849999"
proof -
  show "price_to_u64 3 = 3000000"
    by (simp add: price_to_u64_eq fmul_def fl_numeral py_int_def)
  have "price_to_u64 (fmul 3 (fl (21 / 20))) = py_int (6764573491200001 / 2147483648)"
    by (simp only: price_to_u64_eq price_3_take_profit)
  then show "price_to_u64 (fmul 3 (fl (21 / 20))) = 3150000"
    by (simp add: py_int_def floor_rat_numeral)
  have "price_to_u64 (fmul 3 (fl (19 / 20))) = py_int (6120328396799999 / 2147483648)"
    by (simp only: price_to_u64_eq price_3_stop_loss)
  then show "price_to_u64 (fmul 3 (fl (19 / 20))) = 2849999"
    by (simp add: py_int_def floor_rat_numeral)
qed

text \<open>
  C6. The claim: a prediction created from an actionable signal is active, its
  \<^verbatim>\<open>expires_at\<close> is the creation time plus \<open>timeframe_hours * 3600\<close> seconds, its
  \<^verbatim>\<open>local_id\<close> is the next unused number of the ledger, and an absent take-profit or
  stop-loss defaults to the entry price plus or minus 5%, stored as a fixed-point integer
  with six implied decimals. The code departs from it in two places. The signal at price
  3.0 is created at 1704067200 seconds after the epoch. On a host five hours west of UTC
  its \<^verbatim>\<open>expires_at\<close> is 18000 seconds later than the creation time plus 24 hours,
  because \<^verbatim>\<open>datetime.utcnow().timestamp()\<close> reads the wall clock of UTC as local time;
  on a host at UTC it is the creation time plus 24 hours. On both hosts the stop-loss
  stored is 2849999, where 3.0 less 5% is 2.85 and its fixed-point integer is 2850000:
  \<^verbatim>\<open>price_to_u64\<close> truncates the float product, which lies just below 2850000. Status,
  number, entry price and take-profit are as claimed.
\<close>

theorem created_prediction_expiry_and_default:
  "status ex_created_west = Some ''active''
   \<and> local_id ex_created_west = Some 0
   \<and> entry_price ex_created_west = Some 3000000
   \<and> take_profit ex_created_west = Some 3150000
   \<and> stop_loss ex_created_west = Some 2849999
   \<and> expires_at ex_created_west = Some (of_int (dt_seconds ex_utcnow + 24 * 3600 + 18000))
   \<and> stop_loss ex_created_utc = Some 2849999
   \<and> expires_at ex_created_utc = Some (of_int (dt_seconds ex_utcnow + 24 * 3600))"
proof -
  have w: "expires_at ex_created_west = Some (of_int (dt_seconds ex_utcnow + 24 * 3600 - (- 18000)))"
    unfolding ex_created_west_def
    by (rule create_prediction_tx_expires_at) (simp_all add: ex_utcnow_def)
  have u: "expires_at ex_created_utc = Some (of_int (dt_seconds ex_utcnow + 24 * 3600 - 0))"
    unfolding ex_created_utc_def
    by (rule create_prediction_tx_expires_at) (simp_all add: ex_utcnow_def)
  have f: "status ex_created_west = Some ''active''" "local_id ex_created_west = Some 0"
    "entry_price ex_created_west = Some 3000000" "take_profit ex_created_west = Some 3150000"
    "stop_loss ex_created_west = Some 2849999" "stop_loss ex_created_utc = Some 2849999"
    by (simp_all add: ex_created_west_def ex_created_utc_def create_prediction_tx_def Let_def
        ex_signal_3_def get_float_def price_3_stored)
  from w u f show ?thesis by simp
qed

section \<open>Fixed-point prices\<close>

text \<open>
  C9. The claim: converting a stored fixed-point price to a float (dividing by 1,000,000)
  and back with \<^verbatim>\<open>price_to_u64\<close> (multiplying by 1,000,000 and truncating) returns the
  stored integer. It fails: the stored integer 249 is the price 0.000249, and
  \<^verbatim>\<open>0.000249 * 1000000\<close> is the float just below 249, which \<^verbatim>\<open>int\<close> truncates to 248.
\<close>

theorem price_round_trip_fails: "price_to_u64 (int_truediv 249 1000000) = 248"
  by code_simp

lemma price_round_trip_literal: "price_to_u64 (fl (249 / 1000000)) = 248 \<and> int_truediv 249 1000000 = fl (249 / 1000000)"
  by code_simp

section \<open>The Signal Merger\<close>

lemma merge_signals_pair:
  assumes "fs_symbol s1 = fs_symbol s2"
  shows "merge_signals [s1] [s2] =
           [merge_update
              \<lparr>ms_symbol = fs_symbol s1, ms_chain = fs_chain s1, ms_direction = fs_direction s1,
               ms_confidence = fs_confidence s1, ms_sources = [fs_source s1],
               ms_net_flow_usd = fs_net_flow_usd s1, ms_timestamp = fs_timestamp s1\<rparr> s2]"
  using assms by (simp add: merge_signals_def)

lemma boost_ge:
  assumes "0 \<le> c" and "c \<le> 1"
  shows "c \<le> min (fadd c (fl (2 / 10))) 1"
proof -
  have "\<bar>c + 3602879701896397 / 18014398509481984\<bar> < 2"
    using assms by (simp add: abs_if)
  from fl_error_small_num[OF this]
  have "c \<le> fl (c + 3602879701896397 / 18014398509481984)"
    by linarith
  then have "c \<le> fadd c (fl (2 / 10))"
    unfolding fadd_def fl_consts .
  with assms show ?thesis by simp
qed

lemma penalty_le:
  assumes "0 \<le> c" and "c \<le> 1"
  shows "max (fsub c (fl (3 / 10))) (fl (1 / 10)) \<le> max (c - 29 / 100) (fl (1 / 10))"
proof -
  have "\<bar>c - 5404319552844595 / 18014398509481984\<bar> < 2"
    using assms by (simp add: abs_if)
  from fl_error_small_num[OF this]
  have "fl (c - 5404319552844595 / 18014398509481984) \<le> c - 29 / 100"
    by linarith
  then have "fsub c (fl (3 / 10)) \<le> c - 29 / 100"
    unfolding fsub_def fl_consts .
  then show ?thesis by auto
qed

lemma floor_le_penalty: "fl (1 / 10) \<le> max x (fl (1 / 10))"
  by simp

text \<open>
  C2, as the code has it. Merging two signals of one symbol keeps the direction of the
  first-seen signal and reads only its confidence \<open>c\<close>: the merged confidence is
  \<open>min (c + 0.2) 1.0\<close> when the directions agree and \<open>max (c - 0.3) 0.1\<close> when they differ;
  the confidence of the second signal is not consulted. So, for \<open>c\<close> between 0 and 1, the
  merged confidence is at least \<open>c\<close> (and at most 1.0) on agreement, and at most \<open>c\<close> minus
  0.29, floored at 0.10 (and at least 0.10), on conflict.
\<close>

theorem merge_two_signals:
  assumes "fs_symbol s1 = fs_symbol s2"
  shows "let c = fs_confidence s1;
             merged = (if fs_direction s1 = fs_direction s2
                       then min (fadd c (fl (2 / 10))) 1
                       else max (fsub c (fl (3 / 10))) (fl (1 / 10)))
         in map ms_confidence (merge_signals [s1] [s2]) = [merged]
          \<and> map ms_direction (merge_signals [s1] [s2]) = [fs_direction s1]
          \<and> (0 \<le> c \<and> c \<le> 1 \<longrightarrow>
               (fs_direction s1 = fs_direction s2 \<longrightarrow> c \<le> merged \<and> merged \<le> 1)
             \<and> (fs_direction s1 \<noteq> fs_direction s2 \<longrightarrow>
                  merged \<le> max (c - 29 / 100) (fl (1 / 10)) \<and> fl (1 / 10) \<le> merged))"
  using assms boost_ge[of "fs_confidence s1"] penalty_le[of "fs_confidence s1"]
    floor_le_penalty[of "fsub (fs_confidence s1) (fl (3 / 10))"]
  by (simp add: merge_signals_pair merge_update_def Let_def del: max.bounded_iff min.bounded_iff)

text \<open>Scenario 3 of the specification: LONG at 0.5 against SHORT at 0.4 gives LONG at 0.2.\<close>

theorem merge_two_signals_witness:
  "fs_symbol ex_sig_net = fs_symbol ex_sig_dex
   \<and> 0 \<le> fs_confidence ex_sig_net \<and> fs_confidence ex_sig_net \<le> 1
   \<and> fs_direction ex_sig_net \<noteq> fs_direction ex_sig_dex
   \<and> map ms_confidence (merge_signals [ex_sig_net] [ex_sig_dex]) = [fl (2 / 10)]
   \<and> map ms_direction (merge_signals [ex_sig_net] [ex_sig_dex]) = [''LONG'']
   \<and> fl (2 / 10) \<le> max (fs_confidence ex_sig_net - 29 / 100) (fl (1 / 10))
   \<and> fl (1 / 10) \<le> fl (2 / 10)"
proof -
  have h: "fs_symbol ex_sig_net = fs_symbol ex_sig_dex"
    by (simp add: ex_sig_net_def ex_sig_dex_def)
  have c: "fs_confidence ex_sig_net = 1 / 2"
    by code_simp
  have d: "fs_direction ex_sig_net \<noteq> fs_direction ex_sig_dex" "fs_direction ex_sig_net = ''LONG''"
    by (simp_all add: ex_sig_net_def ex_sig_dex_def)
  have e: "max (fsub (1 / 2) (fl (3 / 10))) (fl (1 / 10)) = fl (2 / 10)"
    by code_simp
  have r: "0 \<le> fs_confidence ex_sig_net \<and> fs_confidence ex_sig_net \<le> 1"
    by (simp add: c)
  note t = merge_two_signals[OF h, unfolded Let_def c]
  from t d have m: "map ms_confidence (merge_signals [ex_sig_net] [ex_sig_dex]) = [fl (2 / 10)]"
    and n: "map ms_direction (merge_signals [ex_sig_net] [ex_sig_dex]) = [''LONG'']"
    unfolding e[symmetric] by simp_all
  from t d have "max (fsub (1 / 2) (fl (3 / 10))) (fl (1 / 10)) \<le> max (1 / 2 - 29 / 100) (fl (1 / 10))
      \<and> fl (1 / 10) \<le> max (fsub (1 / 2) (fl (3 / 10))) (fl (1 / 10))"
    by simp
  then have b: "fl (2 / 10) \<le> max (fs_confidence ex_sig_net - 29 / 100) (fl (1 / 10))"
    and f: "fl (1 / 10) \<le> fl (2 / 10)"
    unfolding e c by simp_all
  from h r d(1) m n b f show ?thesis by blast
qed

text \<open>
  The claim C2 as stated compares with both inputs, and fails on each half: a LONG signal
  at 0.3 merged with a LONG signal at 0.9 gives 0.5, below the larger input; a LONG signal
  at 0.9 merged with a SHORT signal at 0.5 gives 0.6000000000000001, above the smaller
  input minus 0.29.
\<close>

theorem merge_ignores_second_confidence:
  "fs_symbol ex_sig_weak = fs_symbol ex_sig_strong
   \<and> fs_direction ex_sig_weak = fs_direction ex_sig_strong
   \<and> map ms_confidence (merge_signals [ex_sig_weak] [ex_sig_strong]) = [1 / 2]
   \<and> \<not> min (max (fs_confidence ex_sig_weak) (fs_confidence ex_sig_strong)) 1 \<le> 1 / 2
   \<and> fs_symbol ex_sig_sure = fs_symbol ex_sig_against
   \<and> fs_direction ex_sig_sure \<noteq> fs_direction ex_sig_against
   \<and> map ms_confidence (merge_signals [ex_sig_sure] [ex_sig_against])
       = [1351079888211149 / 2251799813685248]
   \<and> \<not> 1351079888211149 / 2251799813685248
         \<le> max (min (fs_confidence ex_sig_sure) (fs_confidence ex_sig_against) - 29 / 100) (fl (1 / 10))"
  by code_simp

end
